theory Spec2Isabelle
  imports Main "HOL-Library.Word"
begin

unbundle bit_operations_syntax

section \<open>Data model of the proof-of-stake kernel (src/src/kernel.cpp)\<close>

text \<open>
  \<open>uint256\<close> is a 256-bit unsigned value, \<open>unsigned int\<close> a 32-bit word and
  \<open>int64_t\<close> a 64-bit word read with \<open>sint\<close>. A \<open>CBigNum\<close> is an
  arbitrary-precision signed integer, so it is an \<open>int\<close>.

  The classes of transactions, outpoints, headers and block-index entries are declared
  in headers that are not among the sources; the records below hold the members that
  kernel.cpp reads, under the names it uses (\<open>prevout.hash\<close> and \<open>prevout.n\<close> are
  \<open>outpoint_hash\<close> and \<open>outpoint_n\<close>), and the six fields of a block header.
\<close>

type_synonym uint256 = "256 word"
type_synonym uint32 = "32 word"
type_synonym int64 = "64 word"
type_synonym byte = "8 word"
type_synonym CBigNum = int
type_synonym CScript = "byte list"

record COutPoint =
  outpoint_hash :: uint256
  outpoint_n :: uint32

record CTxIn =
  prevout :: COutPoint
  scriptSig :: CScript
  scriptWitness :: "byte list list"

record CTxOut =
  nValue :: int64
  scriptPubKey :: CScript

record CTransaction =
  nTime :: uint32
  vin :: "CTxIn list"
  vout :: "CTxOut list"

record CBlockHeader =
  hdr_nVersion :: uint32
  hdr_hashPrevBlock :: uint256
  hdr_hashMerkleRoot :: uint256
  hdr_nTime :: uint32
  hdr_nBits :: uint32
  hdr_nNonce :: uint32

record CBlock =
  blk_header :: CBlockHeader
  blk_vtx :: "CTransaction list"

text \<open>
  A block-index entry with its non-owning back pointer \<open>pprev\<close>; a null
  \<open>CBlockIndex*\<close> is \<open>None\<close>.
\<close>

datatype CBlockIndex =
  CBlockIndex (phashBlock: uint256) (idx_nTime: uint32) (bnStakeModifier: uint256)
    (pprev: "CBlockIndex option")

type_synonym CDiskTxPos = "nat \<times> nat \<times> nat"

text \<open>
  The collaborators that kernel.cpp calls and that live outside it: the hash function
  (hash.h), the compact-difficulty decoder \<open>CBigNum::SetCompact\<close> (bignum.h), the
  transaction and header hashes, \<open>CTransaction::IsCoinStake\<close>, the script
  interpreter, the transaction index (\<open>fTxIndex\<close>, \<open>pblocktree->ReadTxIndex\<close>,
  \<open>GetTransaction\<close>), the consensus parameter \<open>nStakeMinConfirmations\<close> and
  the \<open>-debug\<close> argument. They are parameters of every function below.
\<close>

record externals =
  Hash :: "byte list \<Rightarrow> uint256"
  SetCompact :: "uint32 \<Rightarrow> CBigNum"
  TxHash :: "CTransaction \<Rightarrow> uint256"
  HeaderHash :: "CBlockHeader \<Rightarrow> uint256"
  IsCoinStake :: "CTransaction \<Rightarrow> bool"
  VerifyScript :: "CScript \<Rightarrow> CScript \<Rightarrow> byte list list \<Rightarrow> nat \<Rightarrow> CTransaction \<times> nat \<times> int64 \<Rightarrow> bool"
  fTxIndex :: bool
  ReadTxIndex :: "uint256 \<Rightarrow> CDiskTxPos option"
  GetTransaction :: "uint256 \<Rightarrow> (CTransaction \<times> CBlock) option"
  nStakeMinConfirmations :: int
  debugArg :: bool

subsection \<open>Serialization into a \<open>CDataStream\<close>\<close>

text \<open>
  Modelled from the spec: serialize.h is not among the sources. The chain's canonical
  serialization writes a fixed-width integer as its bytes, least significant first:
  32 bytes for a 256-bit value, 4 bytes for a 32-bit integer.
\<close>

fun le_bytes :: "nat \<Rightarrow> nat \<Rightarrow> byte list" where
  "le_bytes 0 v = []"
| "le_bytes (Suc k) v = of_nat (v mod 256) # le_bytes k (v div 256)"

definition ser_uint256 :: "uint256 \<Rightarrow> byte list" where
  "ser_uint256 w = le_bytes 32 (unat w)"

definition ser_uint32 :: "uint32 \<Rightarrow> byte list" where
  "ser_uint32 w = le_bytes 4 (unat w)"

section \<open>Stake modifier\<close>

text \<open>
  \<open>ComputeStakeModifier\<close>: a null \<open>pindexPrev\<close> gives \<open>uint256()\<close>; otherwise
  the stream receives \<open>kernel\<close> (here \<open>kernelv\<close>), then
  \<open>pindexPrev->bnStakeModifier\<close>, and is hashed.
\<close>

definition ComputeStakeModifier :: "externals \<Rightarrow> CBlockIndex option \<Rightarrow> uint256 \<Rightarrow> uint256" where
  "ComputeStakeModifier ext pindexPrev kernelv =
     (case pindexPrev of
        None \<Rightarrow> 0
      | Some pindex \<Rightarrow> Hash ext (ser_uint256 kernelv @ ser_uint256 (bnStakeModifier pindex)))"

section \<open>Coinstake timestamp policy\<close>

definition CheckCoinStakeTimestamp :: "int64 \<Rightarrow> int64 \<Rightarrow> bool" where
  "CheckCoinStakeTimestamp nTimeBlock nTimeTx = (nTimeBlock = nTimeTx)"

section \<open>Big numbers\<close>

text \<open>
  Modelled from the spec: bignum.h is not among the sources. \<open>CBigNum(uint256)\<close>
  is the value read as an unsigned integer, \<open>CBigNum(int64_t)\<close> the signed value,
  \<open>*=\<close> the exact product and \<open>getuint256\<close> the truncation to 256 bits (of the
  magnitude: a \<open>uint256\<close> has no sign).
\<close>

definition CBigNum_of_uint256 :: "uint256 \<Rightarrow> CBigNum" where
  "CBigNum_of_uint256 h = uint h"

definition CBigNum_of_int64 :: "int64 \<Rightarrow> CBigNum" where
  "CBigNum_of_int64 v = sint v"

definition getuint256 :: "CBigNum \<Rightarrow> uint256" where
  "getuint256 bn = word_of_int \<bar>bn\<bar>"

section \<open>Confirmation depth\<close>

text \<open>
  Modelled from the spec: \<open>IsConfirmedInNPrevBlocks\<close> is defined in validation.cpp,
  which is not among the sources. It walks the ancestors of \<open>pindexFrom\<close> toward
  genesis, counting steps, and stops when the block with the given hash is found (the
  result is \<open>Some\<close> of the steps taken, the out-parameter \<open>nActualDepth\<close>) or when
  \<open>nMaxDepth\<close> steps have been taken or the chain ends (\<open>None\<close>, the C++
  \<open>false\<close>).
\<close>

fun walkAncestors :: "uint256 \<Rightarrow> CBlockIndex option \<Rightarrow> int \<Rightarrow> int \<Rightarrow> int option" where
  "walkAncestors h None steps nMaxDepth = None"
| "walkAncestors h (Some (CBlockIndex bh bt bm prv)) steps nMaxDepth =
     (if \<not> steps < nMaxDepth then None
      else if bh = h then Some steps
      else walkAncestors h prv (steps + 1) nMaxDepth)"

definition IsConfirmedInNPrevBlocks :: "uint256 \<Rightarrow> CBlockIndex option \<Rightarrow> int \<Rightarrow> int option" where
  "IsConfirmedInNPrevBlocks h pindexFrom nMaxDepth = walkAncestors h pindexFrom 0 nMaxDepth"

section \<open>Kernel protocol\<close>

text \<open>
  The outcome of \<open>CheckStakeKernelHash\<close>. \<open>NTimeViolation\<close> is the early
  \<open>return error(...)\<close>: the C++ value is \<open>false\<close> and the two reference
  parameters are left as they were. \<open>VoutIndexOutOfRange\<close> and \<open>NullPindexPrev\<close>
  are the two unguarded accesses (\<open>txPrev->vout[prevout.n]\<close> and
  \<open>pindexPrev->bnStakeModifier\<close>) for which C++ defines no result. Otherwise the
  function reaches the comparison and returns a \<open>kernel_return\<close>: the boolean
  and the two reference parameters as assigned.
\<close>

datatype kernel_error = NTimeViolation | VoutIndexOutOfRange | NullPindexPrev

record kernel_return =
  ret :: bool
  hashProofOfStake :: uint256
  targetProofOfStake :: uint256

definition GetBlockTime :: "CBlockHeader \<Rightarrow> uint32" where
  "GetBlockTime blockFrom = hdr_nTime blockFrom"

text \<open>The bytes written to the stream \<open>ss\<close>, in the order of the \<open><<\<close> operators.\<close>

definition kernel_stream :: "uint256 \<Rightarrow> uint32 \<Rightarrow> COutPoint \<Rightarrow> uint32 \<Rightarrow> byte list" where
  "kernel_stream bnStakeModifier' nTimeTxPrev prevout' nTimeTx =
     ser_uint256 bnStakeModifier' @ ser_uint32 nTimeTxPrev @ ser_uint256 (outpoint_hash prevout')
       @ ser_uint32 (outpoint_n prevout') @ ser_uint32 nTimeTx"

text \<open>
  \<open>nTimeBlockFrom\<close> and \<open>fPrintProofOfStake\<close> only feed \<open>LogPrint\<close>; they are
  kept as parameters and have no effect on the result.
\<close>

definition CheckStakeKernelHash ::
  "externals \<Rightarrow> uint32 \<Rightarrow> CBlockIndex option \<Rightarrow> CBlockHeader \<Rightarrow> CTransaction \<Rightarrow> COutPoint
     \<Rightarrow> uint32 \<Rightarrow> bool \<Rightarrow> kernel_error + kernel_return" where
  "CheckStakeKernelHash ext nBits pindexPrev blockFrom txPrev prevout' nTimeTx fPrintProofOfStake =
     (let nTimeBlockFrom = GetBlockTime blockFrom in
      if nTimeTx < nTime txPrev then Inl NTimeViolation
      else
        let bnTarget = SetCompact ext nBits in
        if \<not> unat (outpoint_n prevout') < length (vout txPrev) then Inl VoutIndexOutOfRange
        else
          let nValueIn = nValue (vout txPrev ! unat (outpoint_n prevout'));
              bnWeight = CBigNum_of_int64 nValueIn;
              bnTarget = bnTarget * bnWeight;
              targetProofOfStake' = getuint256 bnTarget
          in
          case pindexPrev of
            None \<Rightarrow> Inl NullPindexPrev
          | Some pindex \<Rightarrow>
              let bnStakeModifier' = bnStakeModifier pindex;
                  hashProofOfStake' =
                    Hash ext (kernel_stream bnStakeModifier' (nTime txPrev) prevout' nTimeTx)
              in
              if CBigNum_of_uint256 hashProofOfStake' > bnTarget
              then Inr \<lparr>ret = False, hashProofOfStake = hashProofOfStake',
                        targetProofOfStake = targetProofOfStake'\<rparr>
              else Inr \<lparr>ret = True, hashProofOfStake = hashProofOfStake',
                        targetProofOfStake = targetProofOfStake'\<rparr>)"

text \<open>
  The outcome of \<open>CheckProofOfStake\<close>: one error per \<open>return\<close> of a failure, in
  the order of the source. \<open>StakeAtDepth\<close> carries \<open>nDepth + 1\<close>;
  \<open>InvalidPosScript\<close> is \<open>state.DoS(100, ..., "invalid-pos-script")\<close> and
  \<open>CheckKernelFailed\<close> is \<open>state.DoS(1, ...)\<close>, taken whenever
  \<open>CheckStakeKernelHash\<close> returned \<open>false\<close>. \<open>UndefinedAccess\<close> stands for
  \<open>tx->vin[0]\<close> on an empty \<open>vin\<close>, an output index out of range and a null
  \<open>pindexPrev\<close>. Success returns the two reference parameters.
\<close>

datatype pos_error =
    NotCoinStake
  | TxIndexNotAvailable
  | TxIndexNotFound
  | PrevoutNotInChain
  | StakeAtDepth int
  | TxidMismatch
  | InvalidPosScript
  | CheckKernelFailed
  | UndefinedAccess

text \<open>
  Modelled from the spec: primitives/block.h and script/interpreter.h are not among the
  sources. A default-constructed \<open>CBlockHeader\<close> is the never-populated header, every
  field zero; \<open>SCRIPT_VERIFY_P2SH\<close> is the flag word with bit 0 set.
\<close>

definition CBlockHeader_null :: CBlockHeader where
  "CBlockHeader_null =
     \<lparr>hdr_nVersion = 0, hdr_hashPrevBlock = 0, hdr_hashMerkleRoot = 0,
      hdr_nTime = 0, hdr_nBits = 0, hdr_nNonce = 0\<rparr>"

definition SCRIPT_VERIFY_P2SH :: nat where
  "SCRIPT_VERIFY_P2SH = 1"

definition CheckProofOfStake ::
  "externals \<Rightarrow> CBlockIndex option \<Rightarrow> CTransaction \<Rightarrow> uint32 \<Rightarrow> pos_error + uint256 \<times> uint256" where
  "CheckProofOfStake ext pindexPrev tx nBits =
     (if \<not> IsCoinStake ext tx then Inl NotCoinStake
      else case vin tx of
        [] \<Rightarrow> Inl UndefinedAccess
      | txin # _ \<Rightarrow>
          if \<not> fTxIndex ext then Inl TxIndexNotAvailable
          else case ReadTxIndex ext (outpoint_hash (prevout txin)) of
            None \<Rightarrow> Inl TxIndexNotFound
          | Some postx \<Rightarrow>
              let header = CBlockHeader_null in
              case GetTransaction ext (outpoint_hash (prevout txin)) of
                None \<Rightarrow> Inl PrevoutNotInChain
              | Some (txPrev, blockKernel) \<Rightarrow>
                  case IsConfirmedInNPrevBlocks (HeaderHash ext header) pindexPrev
                         (nStakeMinConfirmations ext - 1) of
                    Some nDepth \<Rightarrow> Inl (StakeAtDepth (nDepth + 1))
                  | None \<Rightarrow>
                      if TxHash ext txPrev \<noteq> outpoint_hash (prevout txin) then Inl TxidMismatch
                      else if \<not> unat (outpoint_n (prevout txin)) < length (vout txPrev)
                      then Inl UndefinedAccess
                      else
                        let prevOut = vout txPrev ! unat (outpoint_n (prevout txin)) in
                        if \<not> VerifyScript ext (scriptSig txin) (scriptPubKey prevOut)
                                 (scriptWitness txin) SCRIPT_VERIFY_P2SH (tx, 0, nValue prevOut)
                        then Inl InvalidPosScript
                        else
                          case CheckStakeKernelHash ext nBits pindexPrev header txPrev
                                 (prevout txin) (nTime tx) (debugArg ext) of
                            Inl NTimeViolation \<Rightarrow> Inl CheckKernelFailed
                          | Inl _ \<Rightarrow> Inl UndefinedAccess
                          | Inr r \<Rightarrow>
                              if \<not> ret r then Inl CheckKernelFailed
                              else Inr (hashProofOfStake r, targetProofOfStake r))"

text \<open>
  \<open>CheckKernel\<close> returns a boolean; \<open>Inl\<close> is one of the two undefined accesses
  of \<open>CheckStakeKernelHash\<close>. Its last argument is the default \<open>false\<close> of
  \<open>fPrintProofOfStake\<close>.
\<close>

definition CheckKernel ::
  "externals \<Rightarrow> uint32 \<Rightarrow> CBlockIndex option \<Rightarrow> CBlockHeader \<Rightarrow> CTransaction \<Rightarrow> COutPoint
     \<Rightarrow> uint32 \<Rightarrow> kernel_error + bool" where
  "CheckKernel ext nBits pindexPrev header txPrev prevoutStake nTime' =
     (case IsConfirmedInNPrevBlocks (HeaderHash ext header) pindexPrev
             (nStakeMinConfirmations ext - 1) of
        Some nDepth \<Rightarrow> Inr False
      | None \<Rightarrow>
          (case CheckStakeKernelHash ext nBits pindexPrev header txPrev prevoutStake nTime' False of
             Inl NTimeViolation \<Rightarrow> Inr False
           | Inl e \<Rightarrow> Inl e
           | Inr r \<Rightarrow> Inr (ret r)))"

section \<open>A concrete chain for the instances\<close>

text \<open>
  Modelled from the spec: the standard compact-difficulty decoding (bignum.h is not
  among the sources): the top byte is the size in bytes, the low 23 bits the mantissa,
  bit 23 the sign. It is the decoder of the instances below.
\<close>

definition SetCompact_std :: "uint32 \<Rightarrow> CBigNum" where
  "SetCompact_std nCompact =
     (let nSize = unat (drop_bit 24 nCompact);
          nWord = uint (nCompact AND 0x007fffff);
          mag = (if nSize \<le> 3 then nWord div 2 ^ (8 * (3 - nSize))
                 else nWord * 2 ^ (8 * (nSize - 3)))
      in if nCompact AND 0x00800000 \<noteq> 0 then - mag else mag)"

text \<open>
  Stand-ins for the hash functions in the instances; the theorems hold for every hash
  function. They are kept simple so that the instances can be evaluated: the stream
  hash reads the length of its input, the transaction hash the transaction time and the
  header hash the time and the nonce of the header.
\<close>

definition ex_Hash :: "byte list \<Rightarrow> uint256" where
  "ex_Hash bs = NOT (word_of_nat (length bs))"

definition ex_TxHash :: "CTransaction \<Rightarrow> uint256" where
  "ex_TxHash tx = ucast (nTime tx) + 1"

definition ex_HeaderHash :: "CBlockHeader \<Rightarrow> uint256" where
  "ex_HeaderHash h = ucast (hdr_nTime h) * 4294967296 + ucast (hdr_nNonce h) + 1"

definition ex_IsCoinStake :: "CTransaction \<Rightarrow> bool" where
  "ex_IsCoinStake tx =
     (case (vin tx, vout tx) of
        (i # _, o1 # _ # _) \<Rightarrow> nValue o1 = 0 \<and> scriptPubKey o1 = []
      | _ \<Rightarrow> False)"

definition ex_VerifyScript ::
  "CScript \<Rightarrow> CScript \<Rightarrow> byte list list \<Rightarrow> nat \<Rightarrow> CTransaction \<times> nat \<times> int64 \<Rightarrow> bool" where
  "ex_VerifyScript sig pk wit flags checker = (sig = pk)"

text \<open>
  Two blocks: the genesis block of chainparams.cpp (time 1591772283, nonce 1100841907,
  bits \<open>0x1e0fffff\<close>) and one block on top of it, which confirms \<open>ex_origin_tx\<close>,
  an output of 1000 coins. \<open>ex_coinstake\<close> spends that output two minutes later.
\<close>

definition ex_genesis_header :: CBlockHeader where
  "ex_genesis_header =
     \<lparr>hdr_nVersion = 1, hdr_hashPrevBlock = 0, hdr_hashMerkleRoot = 17,
      hdr_nTime = 1591772283, hdr_nBits = 0x1e0fffff, hdr_nNonce = 1100841907\<rparr>"

definition ex_origin_header :: CBlockHeader where
  "ex_origin_header =
     \<lparr>hdr_nVersion = 1, hdr_hashPrevBlock = ex_HeaderHash ex_genesis_header,
      hdr_hashMerkleRoot = 18, hdr_nTime = 1591772403, hdr_nBits = 0x1e0fffff,
      hdr_nNonce = 7\<rparr>"

definition ex_genesis :: CBlockIndex where
  "ex_genesis = CBlockIndex (ex_HeaderHash ex_genesis_header) 1591772283 0 None"

definition ex_tip :: CBlockIndex where
  "ex_tip = CBlockIndex (ex_HeaderHash ex_origin_header) 1591772403 12345 (Some ex_genesis)"

definition ex_origin_tx :: CTransaction where
  "ex_origin_tx =
     \<lparr>nTime = 1591772403, vin = [],
      vout = [\<lparr>nValue = 100000000000, scriptPubKey = [0x51]\<rparr>]\<rparr>"

definition ex_origin_block :: CBlock where
  "ex_origin_block = \<lparr>blk_header = ex_origin_header, blk_vtx = [ex_origin_tx]\<rparr>"

definition ex_prevout :: COutPoint where
  "ex_prevout = \<lparr>outpoint_hash = ex_TxHash ex_origin_tx, outpoint_n = 0\<rparr>"

definition ex_coinstake :: CTransaction where
  "ex_coinstake =
     \<lparr>nTime = 1591772523,
      vin = [\<lparr>prevout = ex_prevout, scriptSig = [0x51], scriptWitness = []\<rparr>],
      vout = [\<lparr>nValue = 0, scriptPubKey = []\<rparr>,
              \<lparr>nValue = 100000000000, scriptPubKey = [0x51]\<rparr>]\<rparr>"

text \<open>
  Variants: a coinstake whose unlocking script does not match, one that predates the
  origin transaction, one with both defects, and an origin transaction whose output has
  value 0.
\<close>

definition ex_unsigned :: CTransaction where
  "ex_unsigned =
     ex_coinstake\<lparr>vin := [\<lparr>prevout = ex_prevout, scriptSig = [], scriptWitness = []\<rparr>]\<rparr>"

definition ex_early :: CTransaction where
  "ex_early = ex_coinstake\<lparr>nTime := 1591772400\<rparr>"

definition ex_early_unsigned :: CTransaction where
  "ex_early_unsigned = ex_unsigned\<lparr>nTime := 1591772400\<rparr>"

definition ex_zero_tx :: CTransaction where
  "ex_zero_tx =
     \<lparr>nTime = 1591772403, vin = [], vout = [\<lparr>nValue = 0, scriptPubKey = [0x51]\<rparr>]\<rparr>"

text \<open>An origin transaction whose output holds the least \<open>int64_t\<close> value.\<close>

definition ex_negative_tx :: CTransaction where
  "ex_negative_tx =
     \<lparr>nTime = 1591772403, vin = [],
      vout = [\<lparr>nValue = 0x8000000000000000, scriptPubKey = [0x51]\<rparr>]\<rparr>"

definition ex_ext :: externals where
  "ex_ext =
     \<lparr>Hash = ex_Hash, SetCompact = SetCompact_std, TxHash = ex_TxHash,
      HeaderHash = ex_HeaderHash, IsCoinStake = ex_IsCoinStake,
      VerifyScript = ex_VerifyScript, fTxIndex = True,
      ReadTxIndex = (\<lambda>h. if h = ex_TxHash ex_origin_tx then Some (0, 8, 81) else None),
      GetTransaction =
        (\<lambda>h. if h = ex_TxHash ex_origin_tx then Some (ex_origin_tx, ex_origin_block) else None),
      nStakeMinConfirmations = 240, debugArg = False\<rparr>"

section \<open>Properties of the serialization\<close>

lemma length_le_bytes: "length (le_bytes k v) = k"
  by (induction k arbitrary: v) simp_all

lemma le_bytes_inj:
  "v < 256 ^ k \<Longrightarrow> w < 256 ^ k \<Longrightarrow> le_bytes k v = le_bytes k w \<Longrightarrow> v = w"
proof (induction k arbitrary: v w)
  case 0
  then show ?case by simp
next
  case (Suc k)
  from Suc.prems(3) have hd_eq: "(of_nat (v mod 256) :: byte) = of_nat (w mod 256)"
    and tl_eq: "le_bytes k (v div 256) = le_bytes k (w div 256)"
    by simp_all
  have "unat (of_nat (v mod 256) :: byte) = unat (of_nat (w mod 256) :: byte)"
    using hd_eq by simp
  then have m: "v mod 256 = w mod 256"
    by (simp add: unat_of_nat)
  have "v div 256 < 256 ^ k" "w div 256 < 256 ^ k"
    using Suc.prems(1,2) by (simp_all add: less_mult_imp_div_less mult.commute)
  with Suc.IH tl_eq have d: "v div 256 = w div 256"
    by blast
  from m d show ?case
    by (metis div_mult_mod_eq)
qed

lemma length_ser_uint256: "length (ser_uint256 w) = 32"
  by (simp add: ser_uint256_def length_le_bytes)

lemma length_ser_uint32: "length (ser_uint32 w) = 4"
  by (simp add: ser_uint32_def length_le_bytes)

lemma ser_uint256_inj: "ser_uint256 a = ser_uint256 b \<longleftrightarrow> a = b"
proof
  assume eq: "ser_uint256 a = ser_uint256 b"
  have "unat a < 2 ^ 256" "unat b < 2 ^ 256"
    using unsigned_less [of a] unsigned_less [of b] by simp_all
  then have "unat a < 256 ^ 32" "unat b < 256 ^ 32"
    by simp_all
  with eq have "unat a = unat b"
    unfolding ser_uint256_def by (rule le_bytes_inj [rotated 2])
  then show "a = b"
    by (simp add: word_unat_eq_iff)
qed simp

lemma ser_uint32_inj: "ser_uint32 a = ser_uint32 b \<longleftrightarrow> a = b"
proof
  assume eq: "ser_uint32 a = ser_uint32 b"
  have "unat a < 2 ^ 32" "unat b < 2 ^ 32"
    using unsigned_less [of a] unsigned_less [of b] by simp_all
  then have "unat a < 256 ^ 4" "unat b < 256 ^ 4"
    by simp_all
  with eq have "unat a = unat b"
    unfolding ser_uint32_def by (rule le_bytes_inj [rotated 2])
  then show "a = b"
    by (simp add: word_unat_eq_iff)
qed simp

section \<open>Properties of the kernel evaluator\<close>

lemma kernel_stream_length: "length (kernel_stream m t po t') = 76"
  by (simp add: kernel_stream_def length_ser_uint256 length_ser_uint32)

lemma kernel_stream_inj:
  "kernel_stream m t po t' = kernel_stream m2 t2 po2 t2' \<longleftrightarrow>
     m = m2 \<and> t = t2 \<and> outpoint_hash po = outpoint_hash po2 \<and> outpoint_n po = outpoint_n po2 \<and> t' = t2'"
  by (simp add: kernel_stream_def length_ser_uint256 length_ser_uint32 ser_uint256_inj ser_uint32_inj)


lemma CheckStakeKernelHash_reached:
  assumes "\<not> nTimeTx < nTime txPrev" and "unat (outpoint_n po) < length (vout txPrev)"
  shows "CheckStakeKernelHash ext nBits (Some pindex) blockFrom txPrev po nTimeTx fPrint =
     Inr \<lparr>ret = (uint (Hash ext (kernel_stream (bnStakeModifier pindex) (nTime txPrev) po nTimeTx))
                    \<le> SetCompact ext nBits * sint (nValue (vout txPrev ! unat (outpoint_n po)))),
          hashProofOfStake = Hash ext (kernel_stream (bnStakeModifier pindex) (nTime txPrev) po nTimeTx),
          targetProofOfStake =
            getuint256 (SetCompact ext nBits * sint (nValue (vout txPrev ! unat (outpoint_n po))))\<rparr>"
  using assms
  by (simp add: CheckStakeKernelHash_def Let_def CBigNum_of_int64_def CBigNum_of_uint256_def not_less)

lemma CheckStakeKernelHash_print:
  "CheckStakeKernelHash ext nBits pindexPrev blockFrom txPrev po nTimeTx fPrint =
   CheckStakeKernelHash ext nBits pindexPrev blockFrom txPrev po nTimeTx fPrint'"
  by (simp add: CheckStakeKernelHash_def)

lemma ex_SetCompact_genesis: "SetCompact ex_ext 0x1e0fffff = 1048575 * 2 ^ 216"
  by (simp add: ex_ext_def SetCompact_std_def)

lemma ex_origin_value: "sint (nValue (vout ex_origin_tx ! unat (outpoint_n ex_prevout))) = 100000000000"
  by (simp add: ex_origin_tx_def ex_prevout_def)

lemma ex_prevout_in_range: "unat (outpoint_n ex_prevout) < length (vout ex_origin_tx)"
  by (simp add: ex_origin_tx_def ex_prevout_def)

lemma ex_kernel_hash:
  "Hash ex_ext (kernel_stream m t po t') = NOT 76"
  by (simp add: ex_ext_def ex_Hash_def kernel_stream_length)

section \<open>Claims\<close>

text \<open>
  C5. \<open>ComputeStakeModifier\<close> returns the all-zero value when the parent block index
  is absent, whatever the kernel value; for a present parent it returns the hash of the
  64-byte stream holding the kernel value first and the parent's stake modifier second.
  The order is fixed: two streams are equal only if kernel values and modifiers agree
  position by position.
\<close>

theorem C5_ComputeStakeModifier:
  "ComputeStakeModifier ext None kernelv = 0 \<and>
   ComputeStakeModifier ext (Some pindex) kernelv =
     Hash ext (ser_uint256 kernelv @ ser_uint256 (bnStakeModifier pindex)) \<and>
   length (ser_uint256 kernelv @ ser_uint256 (bnStakeModifier pindex)) = 64 \<and>
   take 32 (ser_uint256 kernelv @ ser_uint256 (bnStakeModifier pindex)) = ser_uint256 kernelv \<and>
   (ser_uint256 kernelv @ ser_uint256 (bnStakeModifier pindex) =
      ser_uint256 kernelv' @ ser_uint256 (bnStakeModifier pindex') \<longleftrightarrow>
    kernelv = kernelv' \<and> bnStakeModifier pindex = bnStakeModifier pindex')"
  by (simp add: ComputeStakeModifier_def length_ser_uint256 ser_uint256_inj)

text \<open>
  C9. \<open>CheckCoinStakeTimestamp\<close> returns true exactly when the block time and the
  transaction time are equal; this holds as well for 32-bit times widened to the
  64-bit parameters.
\<close>

theorem C9_CheckCoinStakeTimestamp:
  "(CheckCoinStakeTimestamp nTimeBlock nTimeTx \<longleftrightarrow> nTimeBlock = nTimeTx) \<and>
   (CheckCoinStakeTimestamp (ucast (b :: uint32)) (ucast (t :: uint32)) \<longleftrightarrow> b = t)"
proof -
  have ucast_id: "(ucast (ucast w :: int64) :: uint32) = w" for w :: uint32
    by (rule ucast_up_ucast_id) (simp add: is_up)
  have "(ucast b :: int64) = ucast t \<longleftrightarrow> b = t"
    by (metis ucast_id)
  then show ?thesis
    by (simp add: CheckCoinStakeTimestamp_def)
qed

text \<open>
  C1. Whenever \<open>nTimeTx >= txPrev->nTime\<close> (and the two accesses are defined: the
  output index is in range and \<open>pindexPrev\<close> is not null), \<open>CheckStakeKernelHash\<close>
  reaches the comparison. The kernel hash is the hash of the 76-byte stream holding the
  stake modifier, the origin transaction time, the outpoint hash, the outpoint index and
  the candidate time, in that order, and the function returns true exactly when the
  hash, read as an unsigned integer, is at most the product of the base target and the
  coin value.
\<close>

theorem C1_kernel_hash_and_target:
  assumes "nTime txPrev \<le> nTimeTx" and "unat (outpoint_n po) < length (vout txPrev)"
  shows "\<exists>r. CheckStakeKernelHash ext nBits (Some pindex) blockFrom txPrev po nTimeTx fPrint = Inr r \<and>
     hashProofOfStake r =
       Hash ext (ser_uint256 (bnStakeModifier pindex) @ ser_uint32 (nTime txPrev)
         @ ser_uint256 (outpoint_hash po) @ ser_uint32 (outpoint_n po) @ ser_uint32 nTimeTx) \<and>
     length (ser_uint256 (bnStakeModifier pindex) @ ser_uint32 (nTime txPrev)
         @ ser_uint256 (outpoint_hash po) @ ser_uint32 (outpoint_n po) @ ser_uint32 nTimeTx) = 76 \<and>
     (ret r \<longleftrightarrow>
        uint (hashProofOfStake r)
          \<le> SetCompact ext nBits * sint (nValue (vout txPrev ! unat (outpoint_n po))))"
proof -
  from assms(1) have "\<not> nTimeTx < nTime txPrev"
    by (simp add: not_less)
  from CheckStakeKernelHash_reached [OF this assms(2)] show ?thesis
    by (simp add: kernel_stream_def length_ser_uint256 length_ser_uint32)
qed

text \<open>
  The instance of C1 on the example chain.
\<close>

theorem C1_witness:
  "nTime ex_origin_tx \<le> (1591772523 :: uint32) \<and>
   unat (outpoint_n ex_prevout) < length (vout ex_origin_tx) \<and>
   (\<exists>r. CheckStakeKernelHash ex_ext 0x1e0fffff (Some ex_tip) ex_origin_header ex_origin_tx
           ex_prevout 1591772523 False = Inr r \<and>
        hashProofOfStake r =
          Hash ex_ext (ser_uint256 (bnStakeModifier ex_tip) @ ser_uint32 (nTime ex_origin_tx)
            @ ser_uint256 (outpoint_hash ex_prevout) @ ser_uint32 (outpoint_n ex_prevout)
            @ ser_uint32 1591772523) \<and>
        (ret r \<longleftrightarrow>
           uint (hashProofOfStake r)
             \<le> SetCompact ex_ext 0x1e0fffff
                 * sint (nValue (vout ex_origin_tx ! unat (outpoint_n ex_prevout)))))"
proof -
  have t: "nTime ex_origin_tx \<le> (1591772523 :: uint32)"
    by (simp add: ex_origin_tx_def)
  show ?thesis
    using t ex_prevout_in_range
      C1_kernel_hash_and_target [OF t ex_prevout_in_range, of ex_ext "0x1e0fffff" ex_tip
        ex_origin_header False]
    by blast
qed

text \<open>
  C6. \<open>CheckKernel\<close> returns true exactly when the confirmation-depth check passes
  (\<open>IsConfirmedInNPrevBlocks\<close> is false) and \<open>CheckStakeKernelHash\<close>, on the same
  arguments and whatever its print flag, returns true. The script verifier has no
  influence on it.
\<close>

theorem C6_CheckKernel:
  "(CheckKernel ext nBits pindexPrev header txPrev po nT = Inr True \<longleftrightarrow>
      IsConfirmedInNPrevBlocks (HeaderHash ext header) pindexPrev (nStakeMinConfirmations ext - 1) = None \<and>
      (\<exists>r. CheckStakeKernelHash ext nBits pindexPrev header txPrev po nT fPrint = Inr r \<and> ret r)) \<and>
   CheckKernel (ext\<lparr>VerifyScript := v\<rparr>) nBits pindexPrev header txPrev po nT =
     CheckKernel ext nBits pindexPrev header txPrev po nT"
proof -
  have pr: "CheckStakeKernelHash ext nBits pindexPrev header txPrev po nT fPrint =
            CheckStakeKernelHash ext nBits pindexPrev header txPrev po nT False"
    by (rule CheckStakeKernelHash_print)
  have a: "CheckKernel ext nBits pindexPrev header txPrev po nT = Inr True \<longleftrightarrow>
      IsConfirmedInNPrevBlocks (HeaderHash ext header) pindexPrev (nStakeMinConfirmations ext - 1) = None \<and>
      (\<exists>r. CheckStakeKernelHash ext nBits pindexPrev header txPrev po nT fPrint = Inr r \<and> ret r)"
    unfolding pr
    by (auto simp: CheckKernel_def split: option.splits sum.splits kernel_error.splits)
  have b: "CheckKernel (ext\<lparr>VerifyScript := v\<rparr>) nBits pindexPrev header txPrev po nT =
     CheckKernel ext nBits pindexPrev header txPrev po nT"
  proof -
    have "CheckStakeKernelHash (ext\<lparr>VerifyScript := v\<rparr>) nBits pindexPrev header txPrev po nT False =
          CheckStakeKernelHash ext nBits pindexPrev header txPrev po nT False"
      by (simp add: CheckStakeKernelHash_def Let_def split: option.splits)
    then show ?thesis
      by (simp add: CheckKernel_def split: option.splits)
  qed
  from a b show ?thesis by blast
qed

text \<open>
  The instance of C6 on the example chain.
\<close>

theorem C6_witness:
  "CheckKernel ex_ext 0x1e0fffff (Some ex_tip) CBlockHeader_null ex_origin_tx ex_prevout 1591772523 = Inr True \<and>
   IsConfirmedInNPrevBlocks (HeaderHash ex_ext CBlockHeader_null) (Some ex_tip)
     (nStakeMinConfirmations ex_ext - 1) = None \<and>
   (\<exists>r. CheckStakeKernelHash ex_ext 0x1e0fffff (Some ex_tip) CBlockHeader_null ex_origin_tx
          ex_prevout 1591772523 False = Inr r \<and> ret r)"
proof -
  have d: "IsConfirmedInNPrevBlocks (HeaderHash ex_ext CBlockHeader_null) (Some ex_tip)
     (nStakeMinConfirmations ex_ext - 1) = None"
    by (simp add: IsConfirmedInNPrevBlocks_def ex_ext_def ex_tip_def ex_genesis_def
        ex_HeaderHash_def CBlockHeader_null_def ex_origin_header_def ex_genesis_header_def)
  have t: "\<not> (1591772523 :: uint32) < nTime ex_origin_tx"
    by (simp add: ex_origin_tx_def)
  have k: "\<exists>r. CheckStakeKernelHash ex_ext 0x1e0fffff (Some ex_tip) CBlockHeader_null ex_origin_tx
          ex_prevout 1591772523 False = Inr r \<and> ret r"
    by (simp add: CheckStakeKernelHash_reached [OF t ex_prevout_in_range] ex_SetCompact_genesis
        ex_origin_value ex_kernel_hash)
  from d k C6_CheckKernel [of ex_ext "0x1e0fffff" "Some ex_tip" CBlockHeader_null ex_origin_tx
      ex_prevout 1591772523 False]
  show ?thesis by blast
qed

text \<open>
  C7, as stated, fails: with a coin value of 0 the evaluator raises no error. It
  computes the hash and the target 0 and returns false because the hash exceeds 0.
\<close>

theorem C7_counterexample:
  "sint (nValue (vout ex_zero_tx ! unat (0 :: uint32))) \<le> 0 \<and>
   CheckStakeKernelHash ex_ext 0x1e0fffff (Some ex_tip) ex_origin_header ex_zero_tx
     \<lparr>outpoint_hash = ex_TxHash ex_zero_tx, outpoint_n = 0\<rparr> 1591772523 False =
   Inr \<lparr>ret = False, hashProofOfStake = NOT 76, targetProofOfStake = 0\<rparr>"
proof -
  have t: "\<not> (1591772523 :: uint32) < nTime ex_zero_tx"
    by (simp add: ex_zero_tx_def)
  have i: "unat (outpoint_n \<lparr>outpoint_hash = ex_TxHash ex_zero_tx, outpoint_n = 0\<rparr>)
             < length (vout ex_zero_tx)"
    by (simp add: ex_zero_tx_def)
  have v: "sint (nValue (vout ex_zero_tx ! unat (0 :: uint32))) = 0"
    by (simp add: ex_zero_tx_def)
  show ?thesis
    using v by (simp add: CheckStakeKernelHash_reached [OF t i] ex_kernel_hash getuint256_def)
qed

text \<open>
  C7, amended. For a coin value \<open>nValueIn <= 0\<close> (with \<open>nTimeTx >= txPrev->nTime\<close>
  and defined accesses) \<open>CheckStakeKernelHash\<close> has no failure of its own: it
  computes the kernel hash and the target and returns true exactly when the hash is at
  most the product. With a non-negative base target that happens only when the hash and
  the product are both 0.
\<close>

theorem C7_nonpositive_value:
  assumes "nTime txPrev \<le> nTimeTx" and "unat (outpoint_n po) < length (vout txPrev)"
    and "sint (nValue (vout txPrev ! unat (outpoint_n po))) \<le> 0"
  shows "\<exists>r. CheckStakeKernelHash ext nBits (Some pindex) blockFrom txPrev po nTimeTx fPrint = Inr r \<and>
     hashProofOfStake r = Hash ext (kernel_stream (bnStakeModifier pindex) (nTime txPrev) po nTimeTx) \<and>
     targetProofOfStake r =
       getuint256 (SetCompact ext nBits * sint (nValue (vout txPrev ! unat (outpoint_n po)))) \<and>
     (ret r \<longleftrightarrow> uint (hashProofOfStake r)
        \<le> SetCompact ext nBits * sint (nValue (vout txPrev ! unat (outpoint_n po)))) \<and>
     (0 \<le> SetCompact ext nBits \<longrightarrow>
        (ret r \<longleftrightarrow> hashProofOfStake r = 0 \<and>
           SetCompact ext nBits * sint (nValue (vout txPrev ! unat (outpoint_n po))) = 0))"
proof -
  let ?p = "SetCompact ext nBits * sint (nValue (vout txPrev ! unat (outpoint_n po)))"
  let ?h = "Hash ext (kernel_stream (bnStakeModifier pindex) (nTime txPrev) po nTimeTx)"
  from assms(1) have t: "\<not> nTimeTx < nTime txPrev"
    by (simp add: not_less)
  have nonpos: "?p \<le> 0" if "0 \<le> SetCompact ext nBits"
    using that assms(3) by (simp add: mult_nonneg_nonpos)
  have "uint ?h \<le> ?p \<longleftrightarrow> ?h = 0 \<and> ?p = 0" if "0 \<le> SetCompact ext nBits"
  proof
    assume le: "uint ?h \<le> ?p"
    have "0 \<le> uint ?h" by simp
    with le nonpos [OF that] have "uint ?h = 0" "?p = 0" by linarith+
    then show "?h = 0 \<and> ?p = 0" by (simp add: uint_0_iff)
  next
    assume z: "?h = 0 \<and> ?p = 0"
    from z have "uint ?h = 0" by simp
    moreover from z have "?p = 0" by blast
    ultimately show "uint ?h \<le> ?p" by (simp only:)
  qed
  then show ?thesis
    by (simp add: CheckStakeKernelHash_reached [OF t assms(2)])
qed

text \<open>
  The instance of amended C7 at coin value 0.
\<close>

theorem C7_witness:
  "nTime ex_zero_tx \<le> (1591772523 :: uint32) \<and>
   sint (nValue (vout ex_zero_tx ! unat (0 :: uint32))) \<le> 0 \<and>
   (\<exists>r. CheckStakeKernelHash ex_ext 0x1e0fffff (Some ex_tip) ex_origin_header ex_zero_tx
          \<lparr>outpoint_hash = ex_TxHash ex_zero_tx, outpoint_n = 0\<rparr> 1591772523 False = Inr r \<and>
        targetProofOfStake r = 0 \<and> \<not> ret r)"
proof -
  let ?po = "\<lparr>outpoint_hash = ex_TxHash ex_zero_tx, outpoint_n = 0\<rparr>"
  have t: "nTime ex_zero_tx \<le> (1591772523 :: uint32)"
    by (simp add: ex_zero_tx_def)
  have i: "unat (outpoint_n ?po) < length (vout ex_zero_tx)"
    by (simp add: ex_zero_tx_def)
  have v: "sint (nValue (vout ex_zero_tx ! unat (outpoint_n ?po))) \<le> 0"
    by (simp add: ex_zero_tx_def)
  have v0: "sint (nValue (vout ex_zero_tx ! unat (0 :: uint32))) = 0"
    by (simp add: ex_zero_tx_def)
  from C7_nonpositive_value [OF t i v, of ex_ext "0x1e0fffff" ex_tip ex_origin_header False]
  show ?thesis
    using t v0 by (auto simp: ex_kernel_hash getuint256_def)
qed

lemma ex_product_overflows:
  "2 ^ 256 \<le> SetCompact ex_ext 0x1e0fffff
      * sint (nValue (vout ex_origin_tx ! unat (outpoint_n ex_prevout)))"
  by (simp add: ex_SetCompact_genesis ex_origin_value)

lemma ex_time_ok: "nTime ex_origin_tx \<le> (1591772523 :: uint32)"
  by (simp add: ex_origin_tx_def)

lemma getuint256_nonneg: "0 \<le> bn \<Longrightarrow> uint (getuint256 bn) = bn mod 2 ^ 256"
  by (simp add: getuint256_def uint_word_of_int)

text \<open>
  C8, as stated, fails: at the genesis difficulty \<open>0x1e0fffff\<close> and a coin value of
  1000 coins the product exceeds 256 bits, and the evaluator raises no error. It returns
  true and reports the truncated product as the target.
\<close>

theorem C8_counterexample:
  "2 ^ 256 \<le> SetCompact ex_ext 0x1e0fffff
      * sint (nValue (vout ex_origin_tx ! unat (outpoint_n ex_prevout))) \<and>
   CheckStakeKernelHash ex_ext 0x1e0fffff (Some ex_tip) ex_origin_header ex_origin_tx
     ex_prevout 1591772523 False =
   Inr \<lparr>ret = True, hashProofOfStake = NOT 76,
        targetProofOfStake = word_of_int (1048575 * 2 ^ 216 * 100000000000)\<rparr>"
proof -
  have t: "\<not> (1591772523 :: uint32) < nTime ex_origin_tx"
    by (simp add: ex_origin_tx_def)
  show ?thesis
    by (simp add: CheckStakeKernelHash_reached [OF t ex_prevout_in_range] ex_kernel_hash
        ex_SetCompact_genesis ex_origin_value getuint256_def)
qed

text \<open>
  C8, amended. When the product of the base target and the coin value does not fit in
  256 bits (with \<open>nTimeTx >= txPrev->nTime\<close> and defined accesses),
  \<open>CheckStakeKernelHash\<close> has no failure of its own: it computes the kernel hash,
  reports \<open>getuint256\<close> of the product as the target and compares the hash with the
  exact product. When the product is \<open>2^256\<close> or more it returns true whatever the
  kernel hash, and the target it reports is the product truncated to its low 256 bits.
  When the product is negative it returns false whatever the kernel hash.
\<close>

theorem C8_overflowing_target:
  assumes "nTime txPrev \<le> nTimeTx" and "unat (outpoint_n po) < length (vout txPrev)"
  shows "(2 ^ 256 \<le> SetCompact ext nBits * sint (nValue (vout txPrev ! unat (outpoint_n po))) \<longrightarrow>
      CheckStakeKernelHash ext nBits (Some pindex) blockFrom txPrev po nTimeTx fPrint =
        Inr \<lparr>ret = True,
             hashProofOfStake =
               Hash ext (kernel_stream (bnStakeModifier pindex) (nTime txPrev) po nTimeTx),
             targetProofOfStake =
               word_of_int
                 (SetCompact ext nBits * sint (nValue (vout txPrev ! unat (outpoint_n po))))\<rparr> \<and>
      uint (word_of_int (SetCompact ext nBits * sint (nValue (vout txPrev ! unat (outpoint_n po))))
              :: uint256) =
        (SetCompact ext nBits * sint (nValue (vout txPrev ! unat (outpoint_n po)))) mod 2 ^ 256) \<and>
     (SetCompact ext nBits * sint (nValue (vout txPrev ! unat (outpoint_n po))) < 0 \<longrightarrow>
      CheckStakeKernelHash ext nBits (Some pindex) blockFrom txPrev po nTimeTx fPrint =
        Inr \<lparr>ret = False,
             hashProofOfStake =
               Hash ext (kernel_stream (bnStakeModifier pindex) (nTime txPrev) po nTimeTx),
             targetProofOfStake =
               getuint256
                 (SetCompact ext nBits * sint (nValue (vout txPrev ! unat (outpoint_n po))))\<rparr>)"
proof -
  let ?p = "SetCompact ext nBits * sint (nValue (vout txPrev ! unat (outpoint_n po)))"
  let ?h = "Hash ext (kernel_stream (bnStakeModifier pindex) (nTime txPrev) po nTimeTx)"
  from assms(1) have t: "\<not> nTimeTx < nTime txPrev"
    by (simp add: not_less)
  have above: "CheckStakeKernelHash ext nBits (Some pindex) blockFrom txPrev po nTimeTx fPrint =
       Inr \<lparr>ret = True, hashProofOfStake = ?h, targetProofOfStake = word_of_int ?p\<rparr> \<and>
     uint (word_of_int ?p :: uint256) = ?p mod 2 ^ 256"
    if big: "2 ^ 256 \<le> ?p"
  proof -
    have "uint ?h < 2 ^ 256"
      using uint_lt2p [of ?h] by simp
    with big have le: "uint ?h \<le> ?p"
      by linarith
    have pos: "(0::int) < 2 ^ 256"
      by simp
    with big have abs: "\<bar>?p\<bar> = ?p"
      by linarith
    have tgt: "getuint256 ?p = word_of_int ?p"
      by (simp only: getuint256_def abs)
    have run: "CheckStakeKernelHash ext nBits (Some pindex) blockFrom txPrev po nTimeTx fPrint =
       Inr \<lparr>ret = True, hashProofOfStake = ?h, targetProofOfStake = word_of_int ?p\<rparr>"
      using le by (simp only: CheckStakeKernelHash_reached [OF t assms(2)] tgt simp_thms)
    have low: "uint (word_of_int ?p :: uint256) = ?p mod 2 ^ 256"
      unfolding uint_word_of_int by simp
    from run low show ?thesis
      by (rule conjI)
  qed
  have below: "CheckStakeKernelHash ext nBits (Some pindex) blockFrom txPrev po nTimeTx fPrint =
       Inr \<lparr>ret = False, hashProofOfStake = ?h, targetProofOfStake = getuint256 ?p\<rparr>"
    if neg: "?p < 0"
  proof -
    have "0 \<le> uint ?h"
      by simp
    with neg have gt: "\<not> uint ?h \<le> ?p"
      by linarith
    show ?thesis
      using gt by (simp only: CheckStakeKernelHash_reached [OF t assms(2)] simp_thms)
  qed
  from above below show ?thesis
    by blast
qed

text \<open>
  The instances of amended C8: the example chain at the genesis difficulty, with the
  output of 1000 coins (the product is above \<open>2^256\<close>) and with the output of the
  least \<open>int64_t\<close> value (the product is below \<open>-2^256\<close>).
\<close>

theorem C8_witness:
  "nTime ex_origin_tx \<le> (1591772523 :: uint32) \<and>
   unat (outpoint_n ex_prevout) < length (vout ex_origin_tx) \<and>
   2 ^ 256 \<le> SetCompact ex_ext 0x1e0fffff
      * sint (nValue (vout ex_origin_tx ! unat (outpoint_n ex_prevout))) \<and>
   (\<exists>r. CheckStakeKernelHash ex_ext 0x1e0fffff (Some ex_tip) ex_origin_header ex_origin_tx
          ex_prevout 1591772523 False = Inr r \<and> ret r) \<and>
   nTime ex_negative_tx \<le> (1591772523 :: uint32) \<and>
   unat (outpoint_n ex_prevout) < length (vout ex_negative_tx) \<and>
   SetCompact ex_ext 0x1e0fffff
      * sint (nValue (vout ex_negative_tx ! unat (outpoint_n ex_prevout))) \<le> - (2 ^ 256) \<and>
   (\<exists>r. CheckStakeKernelHash ex_ext 0x1e0fffff (Some ex_tip) ex_origin_header ex_negative_tx
          ex_prevout 1591772523 False = Inr r \<and> \<not> ret r)"
proof -
  have t: "nTime ex_negative_tx \<le> (1591772523 :: uint32)"
    by (simp add: ex_negative_tx_def)
  have i: "unat (outpoint_n ex_prevout) < length (vout ex_negative_tx)"
    by (simp add: ex_negative_tx_def ex_prevout_def)
  have v: "sint (nValue (vout ex_negative_tx ! unat (outpoint_n ex_prevout)))
      = - 9223372036854775808"
    by (simp add: ex_negative_tx_def ex_prevout_def)
  have low: "SetCompact ex_ext 0x1e0fffff
      * sint (nValue (vout ex_negative_tx ! unat (outpoint_n ex_prevout))) \<le> - (2 ^ 256)"
    by (simp add: ex_SetCompact_genesis v)
  have neg: "SetCompact ex_ext 0x1e0fffff
      * sint (nValue (vout ex_negative_tx ! unat (outpoint_n ex_prevout))) < 0"
    by (simp add: ex_SetCompact_genesis v)
  have a: "\<exists>r. CheckStakeKernelHash ex_ext 0x1e0fffff (Some ex_tip) ex_origin_header ex_origin_tx
          ex_prevout 1591772523 False = Inr r \<and> ret r"
    using ex_product_overflows
      C8_overflowing_target [OF ex_time_ok ex_prevout_in_range,
        of ex_ext "0x1e0fffff" ex_tip ex_origin_header False]
    by simp
  have b: "\<exists>r. CheckStakeKernelHash ex_ext 0x1e0fffff (Some ex_tip) ex_origin_header
          ex_negative_tx ex_prevout 1591772523 False = Inr r \<and> \<not> ret r"
    using neg C8_overflowing_target [OF t i, of ex_ext "0x1e0fffff" ex_tip ex_origin_header False]
    by simp
  from ex_time_ok ex_prevout_in_range ex_product_overflows a t i low b show ?thesis
    by blast
qed

text \<open>
  C10. The \<open>targetProofOfStake\<close> handed back by \<open>CheckStakeKernelHash\<close> is
  \<open>getuint256\<close> of the exact product, that is its low 256 bits when the product is
  not negative, while the comparison uses the exact product. So when the product
  exceeds 256 bits and the kernel hash is above the truncated product, the function
  returns true although the hash exceeds the reported target.
\<close>

theorem C10_truncated_target:
  assumes "nTime txPrev \<le> nTimeTx" and "unat (outpoint_n po) < length (vout txPrev)"
  shows "\<exists>r. CheckStakeKernelHash ext nBits (Some pindex) blockFrom txPrev po nTimeTx fPrint = Inr r \<and>
     targetProofOfStake r =
       getuint256 (SetCompact ext nBits * sint (nValue (vout txPrev ! unat (outpoint_n po)))) \<and>
     (0 \<le> SetCompact ext nBits * sint (nValue (vout txPrev ! unat (outpoint_n po))) \<longrightarrow>
        uint (targetProofOfStake r) =
          (SetCompact ext nBits * sint (nValue (vout txPrev ! unat (outpoint_n po)))) mod 2 ^ 256) \<and>
     (ret r \<longleftrightarrow> uint (hashProofOfStake r)
        \<le> SetCompact ext nBits * sint (nValue (vout txPrev ! unat (outpoint_n po)))) \<and>
     (2 ^ 256 \<le> SetCompact ext nBits * sint (nValue (vout txPrev ! unat (outpoint_n po))) \<and>
      (SetCompact ext nBits * sint (nValue (vout txPrev ! unat (outpoint_n po)))) mod 2 ^ 256
        < uint (Hash ext (kernel_stream (bnStakeModifier pindex) (nTime txPrev) po nTimeTx)) \<longrightarrow>
        ret r \<and> targetProofOfStake r < hashProofOfStake r)"
proof -
  let ?p = "SetCompact ext nBits * sint (nValue (vout txPrev ! unat (outpoint_n po)))"
  let ?h = "Hash ext (kernel_stream (bnStakeModifier pindex) (nTime txPrev) po nTimeTx)"
  let ?r = "\<lparr>ret = (uint ?h \<le> ?p), hashProofOfStake = ?h, targetProofOfStake = getuint256 ?p\<rparr>"
  from assms(1) have t: "\<not> nTimeTx < nTime txPrev"
    by (simp add: not_less)
  have run: "CheckStakeKernelHash ext nBits (Some pindex) blockFrom txPrev po nTimeTx fPrint = Inr ?r"
    by (rule CheckStakeKernelHash_reached [OF t assms(2)])
  have trunc: "uint (getuint256 ?p) = ?p mod 2 ^ 256" if "0 \<le> ?p"
    using that by (rule getuint256_nonneg)
  have over: "uint ?h \<le> ?p \<and> getuint256 ?p < ?h"
    if big: "2 ^ 256 \<le> ?p" and gt: "?p mod 2 ^ 256 < uint ?h"
  proof
    have "uint ?h < 2 ^ 256"
      using uint_lt2p [of ?h] by simp
    with big show "uint ?h \<le> ?p"
      by linarith
    have "(0::int) < 2 ^ 256"
      by simp
    with big have "0 \<le> ?p"
      by linarith
    from trunc [OF this] gt show "getuint256 ?p < ?h"
      by (simp add: word_less_def)
  qed
  show ?thesis
  proof (intro exI conjI impI)
    show "CheckStakeKernelHash ext nBits (Some pindex) blockFrom txPrev po nTimeTx fPrint = Inr ?r"
      by (rule run)
  qed (use trunc over in \<open>simp_all\<close>)
qed

text \<open>
  Such an input exists: the example chain, at the genesis difficulty and a coin value
  of 1000 coins.
\<close>

theorem C10_witness:
  "nTime ex_origin_tx \<le> (1591772523 :: uint32) \<and>
   unat (outpoint_n ex_prevout) < length (vout ex_origin_tx) \<and>
   2 ^ 256 \<le> SetCompact ex_ext 0x1e0fffff
      * sint (nValue (vout ex_origin_tx ! unat (outpoint_n ex_prevout))) \<and>
   (\<exists>r. CheckStakeKernelHash ex_ext 0x1e0fffff (Some ex_tip) ex_origin_header ex_origin_tx
          ex_prevout 1591772523 False = Inr r \<and>
        ret r \<and> targetProofOfStake r < hashProofOfStake r)"
proof -
  have gt: "(SetCompact ex_ext 0x1e0fffff
      * sint (nValue (vout ex_origin_tx ! unat (outpoint_n ex_prevout)))) mod 2 ^ 256
    < uint (Hash ex_ext (kernel_stream (bnStakeModifier ex_tip) (nTime ex_origin_tx) ex_prevout
        1591772523))"
    by (simp add: ex_SetCompact_genesis ex_origin_value ex_kernel_hash)
  from C10_truncated_target [OF ex_time_ok ex_prevout_in_range,
      of ex_ext "0x1e0fffff" ex_tip ex_origin_header False]
  show ?thesis
    using ex_time_ok ex_prevout_in_range ex_product_overflows gt by blast
qed

lemma CheckProofOfStake_reaches_script:
  assumes "IsCoinStake ext tx" and "vin tx = txin # rest" and "fTxIndex ext"
    and "ReadTxIndex ext (outpoint_hash (prevout txin)) \<noteq> None"
    and "GetTransaction ext (outpoint_hash (prevout txin)) = Some (txPrev, blockKernel)"
    and "IsConfirmedInNPrevBlocks (HeaderHash ext CBlockHeader_null) pindexPrev
           (nStakeMinConfirmations ext - 1) = None"
    and "TxHash ext txPrev = outpoint_hash (prevout txin)"
    and "unat (outpoint_n (prevout txin)) < length (vout txPrev)"
  shows "CheckProofOfStake ext pindexPrev tx nBits =
     (if \<not> VerifyScript ext (scriptSig txin)
              (scriptPubKey (vout txPrev ! unat (outpoint_n (prevout txin))))
              (scriptWitness txin) SCRIPT_VERIFY_P2SH
              (tx, 0, nValue (vout txPrev ! unat (outpoint_n (prevout txin))))
      then Inl InvalidPosScript
      else case CheckStakeKernelHash ext nBits pindexPrev CBlockHeader_null txPrev
                  (prevout txin) (nTime tx) (debugArg ext) of
             Inl NTimeViolation \<Rightarrow> Inl CheckKernelFailed
           | Inl _ \<Rightarrow> Inl UndefinedAccess
           | Inr r \<Rightarrow>
               if \<not> ret r then Inl CheckKernelFailed
               else Inr (hashProofOfStake r, targetProofOfStake r))"
  using assms by (auto simp: CheckProofOfStake_def Let_def)

lemma CheckProofOfStake_success_script:
  assumes "CheckProofOfStake ext pindexPrev tx nBits = Inr (h, t)"
    and "vin tx = txin # rest"
    and "GetTransaction ext (outpoint_hash (prevout txin)) = Some (txPrev, blockKernel)"
  shows "VerifyScript ext (scriptSig txin)
           (scriptPubKey (vout txPrev ! unat (outpoint_n (prevout txin))))
           (scriptWitness txin) SCRIPT_VERIFY_P2SH
           (tx, 0, nValue (vout txPrev ! unat (outpoint_n (prevout txin))))"
    and "\<exists>r. CheckStakeKernelHash ext nBits pindexPrev CBlockHeader_null txPrev (prevout txin)
              (nTime tx) (debugArg ext) = Inr r \<and> ret r"
  using assms
  by (auto simp: CheckProofOfStake_def Let_def
      split: if_splits option.splits sum.splits kernel_error.splits)

lemma CheckProofOfStake_kernel_failed:
  assumes "CheckProofOfStake ext pindexPrev tx nBits = Inl CheckKernelFailed"
    and "vin tx = txin # rest"
    and "GetTransaction ext (outpoint_hash (prevout txin)) = Some (txPrev, blockKernel)"
  shows "VerifyScript ext (scriptSig txin)
           (scriptPubKey (vout txPrev ! unat (outpoint_n (prevout txin))))
           (scriptWitness txin) SCRIPT_VERIFY_P2SH
           (tx, 0, nValue (vout txPrev ! unat (outpoint_n (prevout txin))))"
  using assms
  by (auto simp: CheckProofOfStake_def Let_def
      split: if_splits option.splits sum.splits kernel_error.splits)

lemma ex_index_facts:
  "fTxIndex ex_ext"
  "ReadTxIndex ex_ext (outpoint_hash ex_prevout) \<noteq> None"
  "GetTransaction ex_ext (outpoint_hash ex_prevout) = Some (ex_origin_tx, ex_origin_block)"
  "TxHash ex_ext ex_origin_tx = outpoint_hash ex_prevout"
  by (simp_all add: ex_ext_def ex_prevout_def)

lemma ex_null_header_unconfirmed:
  "IsConfirmedInNPrevBlocks (HeaderHash ex_ext CBlockHeader_null) (Some ex_tip)
     (nStakeMinConfirmations ex_ext - 1) = None"
  by (simp add: IsConfirmedInNPrevBlocks_def ex_ext_def ex_tip_def ex_genesis_def
      ex_HeaderHash_def CBlockHeader_null_def ex_origin_header_def ex_genesis_header_def)

lemma ex_origin_header_confirmed:
  "IsConfirmedInNPrevBlocks (HeaderHash ex_ext (blk_header ex_origin_block)) (Some ex_tip)
     (nStakeMinConfirmations ex_ext - 1) = Some 0"
  by (simp add: IsConfirmedInNPrevBlocks_def ex_ext_def ex_tip_def ex_genesis_def
      ex_origin_block_def)

lemma ex_coinstakes:
  "IsCoinStake ex_ext ex_coinstake" "IsCoinStake ex_ext ex_unsigned"
  "IsCoinStake ex_ext ex_early" "IsCoinStake ex_ext ex_early_unsigned"
  by (simp_all add: ex_ext_def ex_IsCoinStake_def ex_coinstake_def ex_unsigned_def ex_early_def
      ex_early_unsigned_def)

lemma ex_vins:
  "vin ex_coinstake = [\<lparr>prevout = ex_prevout, scriptSig = [0x51], scriptWitness = []\<rparr>]"
  "vin ex_early = [\<lparr>prevout = ex_prevout, scriptSig = [0x51], scriptWitness = []\<rparr>]"
  "vin ex_unsigned = [\<lparr>prevout = ex_prevout, scriptSig = [], scriptWitness = []\<rparr>]"
  "vin ex_early_unsigned = [\<lparr>prevout = ex_prevout, scriptSig = [], scriptWitness = []\<rparr>]"
  by (simp_all add: ex_coinstake_def ex_unsigned_def ex_early_def ex_early_unsigned_def)

lemma ex_times:
  "nTime ex_coinstake = 1591772523" "nTime ex_unsigned = 1591772523"
  "nTime ex_early = 1591772400" "nTime ex_early_unsigned = 1591772400"
  "nTime ex_origin_tx = 1591772403"
  by (simp_all add: ex_coinstake_def ex_unsigned_def ex_early_def ex_early_unsigned_def
      ex_origin_tx_def)

lemma ex_script:
  "VerifyScript ex_ext [0x51] (scriptPubKey (vout ex_origin_tx ! unat (outpoint_n ex_prevout)))
     wit flags checker"
  "\<not> VerifyScript ex_ext [] (scriptPubKey (vout ex_origin_tx ! unat (outpoint_n ex_prevout)))
     wit flags checker"
  by (simp_all add: ex_ext_def ex_VerifyScript_def ex_origin_tx_def ex_prevout_def)

text \<open>
  C2. The claim does not hold of the code, which passes the hash of the
  default-constructed \<open>header\<close> to \<open>IsConfirmedInNPrevBlocks\<close> instead of the hash
  of the block that confirms the origin transaction. On the example chain the origin
  transaction is confirmed in the parent block itself, 0 steps back with 240 required:
  \<open>IsConfirmedInNPrevBlocks\<close> on the origin block's hash finds it, and
  \<open>CheckKernel\<close>, given the origin block's header, refuses the stake; yet
  \<open>CheckProofOfStake\<close> accepts it.
\<close>

theorem C2_young_coin_accepted:
  "GetTransaction ex_ext (outpoint_hash (prevout (hd (vin ex_coinstake)))) =
     Some (ex_origin_tx, ex_origin_block) \<and>
   phashBlock ex_tip = HeaderHash ex_ext (blk_header ex_origin_block) \<and>
   IsConfirmedInNPrevBlocks (HeaderHash ex_ext (blk_header ex_origin_block)) (Some ex_tip)
     (nStakeMinConfirmations ex_ext - 1) = Some 0 \<and>
   CheckProofOfStake ex_ext (Some ex_tip) ex_coinstake 0x1e0fffff =
     Inr (NOT 76, word_of_int (1048575 * 2 ^ 216 * 100000000000)) \<and>
   CheckKernel ex_ext 0x1e0fffff (Some ex_tip) (blk_header ex_origin_block) ex_origin_tx
     ex_prevout (nTime ex_coinstake) = Inr False"
proof -
  have t: "\<not> (1591772523 :: uint32) < nTime ex_origin_tx"
    by (simp add: ex_origin_tx_def)
  have k: "CheckStakeKernelHash ex_ext 0x1e0fffff (Some ex_tip) CBlockHeader_null ex_origin_tx
      ex_prevout 1591772523 (debugArg ex_ext) =
    Inr \<lparr>ret = True, hashProofOfStake = NOT 76,
         targetProofOfStake = word_of_int (1048575 * 2 ^ 216 * 100000000000)\<rparr>"
    by (simp add: CheckStakeKernelHash_reached [OF t ex_prevout_in_range] ex_kernel_hash
        ex_SetCompact_genesis ex_origin_value getuint256_def)
  have g: "GetTransaction ex_ext (outpoint_hash (prevout (hd (vin ex_coinstake)))) =
     Some (ex_origin_tx, ex_origin_block)"
    by (simp add: ex_vins ex_index_facts)
  have p: "phashBlock ex_tip = HeaderHash ex_ext (blk_header ex_origin_block)"
    by (simp add: ex_tip_def ex_ext_def ex_origin_block_def)
  have v: "CheckProofOfStake ex_ext (Some ex_tip) ex_coinstake 0x1e0fffff =
     Inr (NOT 76, word_of_int (1048575 * 2 ^ 216 * 100000000000))"
    using CheckProofOfStake_reaches_script [OF ex_coinstakes(1) ex_vins(1) ex_index_facts(1),
        of ex_origin_tx ex_origin_block "Some ex_tip" "0x1e0fffff"]
    by (simp add: ex_index_facts ex_null_header_unconfirmed ex_prevout_in_range ex_script
        ex_times k)
  have c: "CheckKernel ex_ext 0x1e0fffff (Some ex_tip) (blk_header ex_origin_block) ex_origin_tx
     ex_prevout (nTime ex_coinstake) = Inr False"
    by (simp add: CheckKernel_def ex_origin_header_confirmed)
  from g p ex_origin_header_confirmed v c show ?thesis
    by blast
qed




text \<open>
  C4. When the script verifier rejects the unlocking script of input 0 against the
  origin output, \<open>CheckProofOfStake\<close> never returns success and never gets as far
  as the kernel evaluation; when the checks before the verifier pass, so that the
  verifier is called, the result is the \<open>invalid-pos-script\<close> failure.
\<close>

theorem C4_unsigned_claim_rejected:
  assumes "vin tx = txin # rest"
    and "GetTransaction ext (outpoint_hash (prevout txin)) = Some (txPrev, blockKernel)"
    and "\<not> VerifyScript ext (scriptSig txin)
            (scriptPubKey (vout txPrev ! unat (outpoint_n (prevout txin))))
            (scriptWitness txin) SCRIPT_VERIFY_P2SH
            (tx, 0, nValue (vout txPrev ! unat (outpoint_n (prevout txin))))"
  shows "(\<forall>h t. CheckProofOfStake ext pindexPrev tx nBits \<noteq> Inr (h, t)) \<and>
     CheckProofOfStake ext pindexPrev tx nBits \<noteq> Inl CheckKernelFailed \<and>
     (IsCoinStake ext tx \<and> fTxIndex ext \<and>
      ReadTxIndex ext (outpoint_hash (prevout txin)) \<noteq> None \<and>
      IsConfirmedInNPrevBlocks (HeaderHash ext CBlockHeader_null) pindexPrev
        (nStakeMinConfirmations ext - 1) = None \<and>
      TxHash ext txPrev = outpoint_hash (prevout txin) \<and>
      unat (outpoint_n (prevout txin)) < length (vout txPrev)
      \<longrightarrow> CheckProofOfStake ext pindexPrev tx nBits = Inl InvalidPosScript)"
proof -
  have never: "CheckProofOfStake ext pindexPrev tx nBits \<noteq> Inr (h, t)" for h t
    using CheckProofOfStake_success_script(1) [OF _ assms(1,2)] assms(3) by blast
  have nokernel: "CheckProofOfStake ext pindexPrev tx nBits \<noteq> Inl CheckKernelFailed"
    using CheckProofOfStake_kernel_failed [OF _ assms(1,2)] assms(3) by blast
  have reached: "CheckProofOfStake ext pindexPrev tx nBits = Inl InvalidPosScript"
    if "IsCoinStake ext tx" "fTxIndex ext"
      "ReadTxIndex ext (outpoint_hash (prevout txin)) \<noteq> None"
      "IsConfirmedInNPrevBlocks (HeaderHash ext CBlockHeader_null) pindexPrev
        (nStakeMinConfirmations ext - 1) = None"
      "TxHash ext txPrev = outpoint_hash (prevout txin)"
      "unat (outpoint_n (prevout txin)) < length (vout txPrev)"
    using CheckProofOfStake_reaches_script [OF that(1) assms(1) that(2,3) assms(2) that(4,5,6),
        of nBits] assms(3)
    by simp
  from never nokernel reached show ?thesis
    by blast
qed

text \<open>
  The instance of C4: the example coinstake with an empty unlocking script.
\<close>

theorem C4_witness:
  "vin ex_unsigned = [\<lparr>prevout = ex_prevout, scriptSig = [], scriptWitness = []\<rparr>] \<and>
   GetTransaction ex_ext (outpoint_hash ex_prevout) = Some (ex_origin_tx, ex_origin_block) \<and>
   \<not> VerifyScript ex_ext []
       (scriptPubKey (vout ex_origin_tx ! unat (outpoint_n ex_prevout))) []
       SCRIPT_VERIFY_P2SH
       (ex_unsigned, 0, nValue (vout ex_origin_tx ! unat (outpoint_n ex_prevout))) \<and>
   CheckProofOfStake ex_ext (Some ex_tip) ex_unsigned 0x1e0fffff = Inl InvalidPosScript"
proof -
  let ?txin = "\<lparr>prevout = ex_prevout, scriptSig = [], scriptWitness = []\<rparr>"
  have g: "GetTransaction ex_ext (outpoint_hash (prevout ?txin)) =
      Some (ex_origin_tx, ex_origin_block)"
    by (simp add: ex_index_facts)
  have s: "\<not> VerifyScript ex_ext (scriptSig ?txin)
       (scriptPubKey (vout ex_origin_tx ! unat (outpoint_n (prevout ?txin))))
       (scriptWitness ?txin) SCRIPT_VERIFY_P2SH
       (ex_unsigned, 0, nValue (vout ex_origin_tx ! unat (outpoint_n (prevout ?txin))))"
    by (simp add: ex_script)
  from C4_unsigned_claim_rejected [OF ex_vins(3) g s, of "Some ex_tip" "0x1e0fffff"]
  have "CheckProofOfStake ex_ext (Some ex_tip) ex_unsigned 0x1e0fffff = Inl InvalidPosScript"
    by (simp add: ex_coinstakes ex_index_facts ex_null_header_unconfirmed ex_prevout_in_range)
  then show ?thesis
    by (simp add: ex_vins ex_index_facts ex_script)
qed

text \<open>The instances of C5 and C9 on the example chain.\<close>

theorem C5_witness:
  "ComputeStakeModifier ex_ext None 5 = 0 \<and>
   ComputeStakeModifier ex_ext (Some ex_tip) 5 = NOT 64"
  using C5_ComputeStakeModifier [of ex_ext 5 ex_tip]
  by (simp add: ex_ext_def ex_Hash_def length_ser_uint256)

theorem C9_witness:
  "CheckCoinStakeTimestamp 1591772523 1591772523 \<and>
   \<not> CheckCoinStakeTimestamp 1591772523 1591772524"
  using C9_CheckCoinStakeTimestamp [of 1591772523 1591772523]
    C9_CheckCoinStakeTimestamp [of 1591772523 1591772524]
  by simp

end
